theory Spec2Isabelle
  imports Complex_Main
begin

section \<open>The scene-configuration sampler of renderstim (latents/dataset.py)\<close>

text \<open>
  The development embeds \<^verbatim>\<open>latent_dataset\<close> of \<^verbatim>\<open>src/renderstim/latents/dataset.py\<close> and
  \<^verbatim>\<open>get_hdri_id\<close> of \<^verbatim>\<open>src/renderstim/latents/hdri.py\<close>.

  Python ints are \<open>int\<close>, an exception is the left injection of a sum. The floats that
  the function only copies or draws are read as real numbers (\<^verbatim>\<open>np.pi\<close> as \<open>\<pi>\<close>); the two
  floats it compares, \<^verbatim>\<open>floor_friction\<close> and \<^verbatim>\<open>floor_restitution\<close>, are of a type that also
  has the infinities and the not-a-number. The configuration dictionary of one scene is a record with
  one field per key.
\<close>

subsection \<open>Exceptions\<close>

text \<open>
  \<open>ValueError\<close> carries its message. \<open>IndexError\<close> is what an assignment to a list
  index out of range raises. \<open>OSError\<close> and \<open>KeyError\<close> are what opening and reading the
  HDRI manifest can raise.
\<close>

datatype error = ValueError string | IndexError string | OSError string | KeyError string

fun is_ValueError :: "error \<Rightarrow> bool" where
  "is_ValueError (ValueError m) = True"
| "is_ValueError (IndexError m) = False"
| "is_ValueError (OSError m) = False"
| "is_ValueError (KeyError m) = False"

subsection \<open>Module constants\<close>

definition KUBASIC_IDS :: "string list" where
  "KUBASIC_IDS = [''cube'', ''cylinder'', ''sphere'', ''cone'', ''torus'', ''gear'',
     ''torus_knot'', ''sponge'', ''spot'', ''suzanne'']"

text \<open>The entry \<^verbatim>\<open>'IMAGE'\<close> is commented out in the source list.\<close>

definition TEXTURES :: "string list" where
  "TEXTURES = [''NONE'', ''CLOUDS'', ''DISTORTED_NOISE'', ''MAGIC'', ''MARBLE'',
     ''MUSGRAVE'', ''STUCCI'', ''VORONOI'', ''WOOD'']"

subsection \<open>Floats that are compared\<close>

text \<open>
  A Python float is a number, one of the two infinities, or the not-a-number. Every
  comparison with the not-a-number is false.
\<close>

datatype pyfloat = Finite real | PosInf | NegInf | NaN

text \<open>Python's \<^verbatim>\<open>a < b\<close> on floats; \<^verbatim>\<open>a > b\<close> is \<open>float_lt b a\<close>.\<close>

fun float_lt :: "pyfloat \<Rightarrow> pyfloat \<Rightarrow> bool" where
  "float_lt (Finite a) (Finite b) = (a < b)"
| "float_lt (Finite a) PosInf = True"
| "float_lt NegInf (Finite b) = True"
| "float_lt NegInf PosInf = True"
| "float_lt a b = False"

subsection \<open>What the function is called with\<close>

text \<open>
  The keyword arguments of \<^verbatim>\<open>latent_dataset\<close>, under their own names. \<open>sun_position\<close> is the
  content, at the time of the call, of the list object passed for that argument.
\<close>

record params =
  num_scenes :: int
  resolution :: "int list"
  min_num_objects :: int
  max_num_objects :: int
  spawn_region :: "real list list"
  lighting :: string
  sun_position :: "real list"
  hdri_world :: bool
  camera_position :: "real list"
  camera_look_at :: "real list"
  camera_focal_length :: real
  camera_sensor_width :: real
  floor_scale :: "real list"
  floor_position :: "real list"
  floor_friction :: pyfloat
  floor_restitution :: pyfloat
  background_type :: string
  asset_source :: string
  velocity_range :: "real list list"
  dataset_comment :: string

subsection \<open>What lies outside the two source files\<close>

text \<open>
  The function draws from numpy generators and calls \<^verbatim>\<open>get_material\<close>, \<^verbatim>\<open>get_texture\<close>,
  \<^verbatim>\<open>get_quaternion\<close> and \<^verbatim>\<open>get_gso_ids\<close>, whose modules (\<^verbatim>\<open>materials\<close>, \<^verbatim>\<open>textures\<close>,
  \<^verbatim>\<open>utils\<close>) are not among the sources, and reads the HDRI manifest from disk. All of
  these are parameters of the model, collected in one record:

  \<^item> \<open>entropy_seeds U N\<close>: the \<open>N\<close> numbers that \<^verbatim>\<open>default_rng().choice(U, size=N, replace=False)\<close>
    returns when it returns (the generator is seeded from the operating system);
  \<^item> \<open>RandomState seed\<close>: the state of \<^verbatim>\<open>np.random.RandomState(seed)\<close>;
  \<^item> \<open>random_sample\<close>: one draw of a float of the half-open unit interval, with the next state;
  \<^item> \<open>random_below n\<close>: one draw of an integer below \<open>n\<close>, with the next state;
  \<^item> \<open>get_material\<close>, \<open>get_texture\<close>: the two samplers, which draw from the generator they
    are handed (signatures as at the call sites);
  \<^item> \<open>get_quaternion\<close>: from an axis name and an angle to a quaternion;
  \<^item> \<open>GSO_IDS\<close>: the value of \<^verbatim>\<open>get_gso_ids()\<close> at import time;
  \<^item> \<open>hdri_manifest\<close>: what opening and parsing \<^verbatim>\<open>HDRI_haven.json\<close> gives: the exception,
    or the keys of its \<^verbatim>\<open>'assets'\<close> entry.
\<close>

record ('s, 'm, 't, 'q) env =
  entropy_seeds :: "nat \<Rightarrow> nat \<Rightarrow> nat list"
  RandomState :: "nat \<Rightarrow> 's"
  random_sample :: "'s \<Rightarrow> real \<times> 's"
  random_below :: "nat \<Rightarrow> 's \<Rightarrow> nat \<times> 's"
  get_material :: "'s \<Rightarrow> 'm \<times> 's"
  get_texture :: "string \<Rightarrow> 's \<Rightarrow> bool \<Rightarrow> 't \<times> 's"
  get_quaternion :: "string \<Rightarrow> real \<Rightarrow> 'q"
  GSO_IDS :: "string list"
  hdri_manifest :: "error + string list"

text \<open>
  What numpy documents of its generators: a float draw lies in the half-open unit
  interval, a bounded integer draw lies below its bound, and a draw without replacement
  of \<open>N\<close> out of \<open>U\<close> gives \<open>N\<close> distinct numbers below \<open>U\<close>.
\<close>

definition rng_contract :: "('s, 'm, 't, 'q) env \<Rightarrow> bool" where
  "rng_contract E \<longleftrightarrow>
     (\<forall>s. 0 \<le> fst (random_sample E s) \<and> fst (random_sample E s) < 1) \<and>
     (\<forall>n s. 0 < n \<longrightarrow> fst (random_below E n s) < n)"

definition seeds_contract :: "('s, 'm, 't, 'q) env \<Rightarrow> bool" where
  "seeds_contract E \<longleftrightarrow>
     (\<forall>U N. N \<le> U \<longrightarrow>
        length (entropy_seeds E U N) = N \<and> distinct (entropy_seeds E U N) \<and>
        (\<forall>x \<in> set (entropy_seeds E U N). x < U))"

subsection \<open>The numpy calls the function makes\<close>

text \<open>\<open>draws n f\<close>: \<open>n\<close> draws one after the other, each from the state the last one left.\<close>

fun draws :: "nat \<Rightarrow> ('s \<Rightarrow> 'a \<times> 's) \<Rightarrow> 's \<Rightarrow> 'a list \<times> 's" where
  "draws 0 f s = ([], s)"
| "draws (Suc n) f s =
     (case f s of (x, s1) \<Rightarrow> (case draws n f s1 of (xs, s2) \<Rightarrow> (x # xs, s2)))"

text \<open>\<^verbatim>\<open>size=n\<close>: numpy refuses a negative size.\<close>

definition sized :: "int \<Rightarrow> ('s \<Rightarrow> 'a \<times> 's) \<Rightarrow> 's \<Rightarrow> error + 'a list \<times> 's" where
  "sized n f s =
     (if n < 0 then Inl (ValueError ''negative dimensions are not allowed'')
      else Inr (draws (nat n) f s))"

text \<open>\<^verbatim>\<open>rng.uniform(low, high)\<close> is \<open>low + (high - low) * random_sample()\<close>.\<close>

definition uniform :: "('s, 'm, 't, 'q) env \<Rightarrow> real \<Rightarrow> real \<Rightarrow> 's \<Rightarrow> real \<times> 's" where
  "uniform E low high s = (case random_sample E s of (u, s') \<Rightarrow> (low + (high - low) * u, s'))"

text \<open>
  \<^verbatim>\<open>rng.randint(low, high)\<close>: an integer from \<open>low\<close> up to, not including, \<open>high\<close>, of
  numpy's 64-bit integer type. numpy refuses bounds outside that type and an empty range.
\<close>

definition randint :: "('s, 'm, 't, 'q) env \<Rightarrow> int \<Rightarrow> int \<Rightarrow> 's \<Rightarrow> error + int \<times> 's" where
  "randint E low high s =
     (if low < - 9223372036854775808 then Inl (ValueError ''low is out of bounds for int64'')
      else if high > 9223372036854775808 then Inl (ValueError ''high is out of bounds for int64'')
      else if low \<ge> high then Inl (ValueError ''low >= high'')
      else (case random_below E (nat (high - low)) s of (k, s') \<Rightarrow> Inr (low + int k, s')))"

text \<open>One element of a list: the element at a drawn index.\<close>

definition pick :: "('s, 'm, 't, 'q) env \<Rightarrow> 'a list \<Rightarrow> 's \<Rightarrow> 'a \<times> 's" where
  "pick E a s = (case random_below E (length a) s of (k, s') \<Rightarrow> (a ! k, s'))"

text \<open>\<^verbatim>\<open>rng.choice(a)\<close>: numpy refuses an empty population.\<close>

definition choice :: "('s, 'm, 't, 'q) env \<Rightarrow> 'a list \<Rightarrow> 's \<Rightarrow> error + 'a \<times> 's" where
  "choice E a s =
     (if a = [] then Inl (ValueError ''a cannot be empty unless no samples are taken'')
      else Inr (pick E a s))"

text \<open>\<^verbatim>\<open>rng.choice(a, size=n)\<close>, with replacement.\<close>

definition choice_sized ::
  "('s, 'm, 't, 'q) env \<Rightarrow> 'a list \<Rightarrow> int \<Rightarrow> 's \<Rightarrow> error + 'a list \<times> 's" where
  "choice_sized E a n s =
     (if a = [] \<and> n \<noteq> 0 then Inl (ValueError ''a cannot be empty unless no samples are taken'')
      else sized n (pick E a) s)"

text \<open>
  \<^verbatim>\<open>np.random.default_rng().choice(U, size=N, replace=False)\<close>: numpy refuses a negative size
  and a sample larger than the population.
\<close>

definition choice_no_replace :: "('s, 'm, 't, 'q) env \<Rightarrow> nat \<Rightarrow> int \<Rightarrow> error + nat list" where
  "choice_no_replace E U N =
     (if N < 0 then Inl (ValueError ''negative dimensions are not allowed'')
      else if N > int U then
        Inl (ValueError ''Cannot take a larger sample than population when replace is False'')
      else Inr (entropy_seeds E U (nat N)))"

text \<open>Python's \<^verbatim>\<open>xs[i] = v\<close> on a list.\<close>

definition list_assign :: "'a list \<Rightarrow> nat \<Rightarrow> 'a \<Rightarrow> error + 'a list" where
  "list_assign xs i v =
     (if i < length xs then Inr (xs[i := v])
      else Inl (IndexError ''list assignment index out of range''))"

subsection \<open>hdri.py\<close>

definition get_hdri_id :: "('s, 'm, 't, 'q) env \<Rightarrow> 's \<Rightarrow> error + string \<times> 's" where
  "get_hdri_id E rng =
     (case hdri_manifest E of
        Inl e \<Rightarrow> Inl e
      | Inr hdri_ids \<Rightarrow> choice E hdri_ids rng)"

subsection \<open>The configuration of one scene\<close>

text \<open>
  A key that only one branch sets, or that a branch sets to \<^verbatim>\<open>None\<close>, has a field of
  three forms: the key is absent from the dictionary, it is there with the value
  \<^verbatim>\<open>None\<close>, or it is there with a value.
\<close>

datatype 'a field = Absent | Null | Val 'a

text \<open>
  The function stores the list object of its argument \<^verbatim>\<open>sun_position\<close> in the
  dictionary, not a copy, and then assigns to two of its indices. So the dictionary
  holds a reference, and the content of the one list it refers to is threaded through
  the model as \<open>sun_list\<close>. No other argument is written to.
\<close>

datatype ref = Arg_sun_position

record ('m, 't, 'q) latents =
  lat_seed :: nat
  lat_resolution :: "int list"
  lat_spawn_region :: "real list list"
  lat_hdri_world :: bool
  lat_hdri_id :: "string field"
  lat_bg_material :: "'m field"
  lat_floor_position :: "real list field"
  lat_bg_texture :: "'t field"
  lat_sun_position :: "ref field"
  lat_ambient_illumination :: "real field"
  lat_lighting :: string
  lat_camera_position :: "real list"
  lat_camera_look_at :: "real list"
  lat_camera_focal_length :: real
  lat_camera_sensor_width :: real
  lat_floor_scale :: "real list"
  lat_floor_friction :: pyfloat
  lat_floor_restitution :: pyfloat
  lat_velocity_range :: "real list list"
  lat_num_objects :: int
  lat_asset_source :: string
  lat_object_shapes :: "string list"
  lat_object_scales :: "real list"
  lat_object_angles_of_rotation :: "real list"
  lat_object_axes_of_rotation :: "string list"
  lat_object_quaternions :: "'q list"
  lat_object_textures :: "'t list"
  lat_object_materials :: "'m list"

text \<open>What a reader of the dictionary finds under \<^verbatim>\<open>sun_position\<close>, given the list's content.\<close>

fun deref :: "real list \<Rightarrow> ref field \<Rightarrow> real list field" where
  "deref sun_list (Val Arg_sun_position) = Val sun_list"
| "deref sun_list Null = Null"
| "deref sun_list Absent = Absent"

subsection \<open>dataset.py: the checks at the head of the function (lines 98 to 147)\<close>

definition validate :: "params \<Rightarrow> error + unit" where
  "validate P =
    (if length (resolution P) \<noteq> 2 then
       Inl (ValueError ''resolution should be a list of ints of length=2, e.g., [256, 256]'')
     else if length (spawn_region P) \<noteq> 2 then
       Inl (ValueError ''spawn region should be a list of lists of length 3, e.g., [[-2.5, -3.0, 0.2], [2.5, 3.0, 1.5]]'')
     else if list_ex (\<lambda>sr. length sr \<noteq> 3) (spawn_region P) then
       Inl (ValueError ''spawn region should be a list of 2 lists of length 3, e.g., [[-2.5, -3.0, 0.2], [2.5, 3.0, 1.5]]'')
     else if length (sun_position P) \<noteq> 3 then
       Inl (ValueError ''sun position should be a list of length 3, e.g., [0.0, 0.0, 7.0]'')
     else if length (camera_position P) \<noteq> 3 then
       Inl (ValueError ''camera position should be a list of length 3, e.g., [0.0, -8.0, 3.6]'')
     else if length (camera_look_at P) \<noteq> 3 then
       Inl (ValueError ''camera look at should be a list of length 3, e.g., [0.0, 0.0, 0.5]'')
     else if length (floor_scale P) \<noteq> 3 then
       Inl (ValueError ''floor scale should be a list of length 3, e.g., [20.0, 40.0, 0.01]'')
     else if length (floor_position P) \<noteq> 3 then
       Inl (ValueError ''floor position should be a list of length 3, e.g., [0.0, 0.0, 0.0]'')
     else if float_lt (Finite 1) (floor_friction P) \<or> float_lt (floor_friction P) (Finite 0) then
       Inl (ValueError ''floor friction value should be a floating point number between 0.0 and 1.0, e.g., 0.3'')
     else if float_lt (Finite 1) (floor_restitution P) \<or> float_lt (floor_restitution P) (Finite 0) then
       Inl (ValueError ''floor restitution value should be a floating point number between 0.0 and 1.0, e.g., 0.5'')
     else Inr ())"

subsection \<open>dataset.py: the body of the loop over the seeds (lines 154 to 293)\<close>

text \<open>
  Lines 168 to 194, the branch on \<^verbatim>\<open>hdri_world\<close>. It gives the four keys
  \<^verbatim>\<open>hdri_id\<close>, \<^verbatim>\<open>bg_material\<close>, \<^verbatim>\<open>floor_position\<close>, \<^verbatim>\<open>bg_texture\<close> and the generator's next state.
\<close>

definition world_step ::
  "('s, 'm, 't, 'q) env \<Rightarrow> params \<Rightarrow> 's \<Rightarrow>
     error + (string field \<times> 'm field \<times> real list field \<times> 't field) \<times> 's" where
  "world_step E P rng =
    (if hdri_world P then
       (case get_hdri_id E rng of
          Inl e \<Rightarrow> Inl e
        | Inr (hdri_id, rng1) \<Rightarrow> Inr ((Val hdri_id, Absent, Absent, Absent), rng1))
     else
       (case get_material E rng of (bg_material, rng1) \<Rightarrow>
          if background_type P = ''artificial'' then
            (case choice E TEXTURES rng1 of
               Inl e \<Rightarrow> Inl e
             | Inr (kind, rng2) \<Rightarrow>
                 (case get_texture E kind rng2 True of (bg_texture, rng3) \<Rightarrow>
                    Inr ((Null, Val bg_material, Val (floor_position P), Val bg_texture), rng3)))
          else if background_type P = ''realistic'' then
            (case get_texture E ''IMAGE'' rng1 True of (bg_texture, rng2) \<Rightarrow>
               Inr ((Null, Val bg_material, Val (floor_position P), Val bg_texture), rng2))
          else
            Inl (ValueError ''Invalid background type: background_type can be either 'artificial' or 'realistic' '')))"

text \<open>
  Lines 198 to 220, the branch on \<^verbatim>\<open>lighting\<close>. It gives the keys \<^verbatim>\<open>sun_position\<close>,
  \<^verbatim>\<open>ambient_illumination\<close>, \<^verbatim>\<open>lighting\<close>, the new content of the argument's list and the
  generator's next state. Each right-hand side is evaluated before its assignment.
\<close>

definition lighting_step ::
  "('s, 'm, 't, 'q) env \<Rightarrow> params \<Rightarrow> real list \<Rightarrow> 's \<Rightarrow>
     error + (ref field \<times> real field \<times> string) \<times> real list \<times> 's" where
  "lighting_step E P sun_list rng =
    (if lighting P = ''sun'' then
       (case uniform E (- 1) 1 rng of (x, rng1) \<Rightarrow>
        case list_assign sun_list 0 x of
          Inl e \<Rightarrow> Inl e
        | Inr sun_list1 \<Rightarrow>
       (case uniform E (- 1) 1 rng1 of (y, rng2) \<Rightarrow>
        case list_assign sun_list1 1 y of
          Inl e \<Rightarrow> Inl e
        | Inr sun_list2 \<Rightarrow>
       (case uniform E (4 / 10) (7 / 10) rng2 of (a, rng3) \<Rightarrow>
          Inr ((Val Arg_sun_position, Val a, lighting P), sun_list2, rng3))))
     else if lighting P = ''ambient_hdri'' then
       Inr ((Null, Null, lighting P), sun_list, rng)
     else
       Inl (ValueError ''Invalid lighting type: lighting can be either 'sun' or 'ambient_hdri' ''))"

text \<open>Lines 253 to 264, the branch on \<^verbatim>\<open>asset_source\<close>: shapes and scales.\<close>

definition shapes_step ::
  "('s, 'm, 't, 'q) env \<Rightarrow> params \<Rightarrow> int \<Rightarrow> 's \<Rightarrow> error + (string list \<times> real list) \<times> 's" where
  "shapes_step E P n rng =
    (if asset_source P = ''kubasic'' then
       (case choice_sized E KUBASIC_IDS n rng of
          Inl e \<Rightarrow> Inl e
        | Inr (object_shapes, rng1) \<Rightarrow>
            (case sized n (uniform E (6 / 10) (12 / 10)) rng1 of
               Inl e \<Rightarrow> Inl e
             | Inr (object_scales, rng2) \<Rightarrow> Inr ((object_shapes, object_scales), rng2)))
     else if asset_source P = ''GSO'' then
       (case choice_sized E (GSO_IDS E) n rng of
          Inl e \<Rightarrow> Inl e
        | Inr (object_shapes, rng1) \<Rightarrow>
            (case sized n (uniform E 6 10) rng1 of
               Inl e \<Rightarrow> Inl e
             | Inr (object_scales, rng2) \<Rightarrow> Inr ((object_shapes, object_scales), rng2)))
     else
       Inl (ValueError ''Invalid asset source type: asset sources either be 'kubasic' or 'GSO' ''))"

text \<open>
  Lines 282 to 286: the texture of one object, its kind drawn from \<open>TEXTURES\<close> (which is
  not empty, so that \<^verbatim>\<open>rng.choice\<close> does not raise here).
\<close>

definition object_texture :: "('s, 'm, 't, 'q) env \<Rightarrow> 's \<Rightarrow> 't \<times> 's" where
  "object_texture E rng =
     (case pick E TEXTURES rng of (kind, rng1) \<Rightarrow> get_texture E kind rng1 False)"

text \<open>
  Lines 247 to 290: the number of objects and the per-object arrays, in the order of
  the source: shapes, scales, angles, axes, quaternions, textures, materials.
\<close>

definition objects_step ::
  "('s, 'm, 't, 'q) env \<Rightarrow> params \<Rightarrow> 's \<Rightarrow>
     error + (int \<times> string list \<times> real list \<times> real list \<times> string list \<times> 'q list \<times> 't list \<times> 'm list)"
  where
  "objects_step E P rng =
    (case randint E (min_num_objects P) (max_num_objects P + 1) rng of
       Inl e \<Rightarrow> Inl e
     | Inr (n, rng1) \<Rightarrow>
    (case shapes_step E P n rng1 of
       Inl e \<Rightarrow> Inl e
     | Inr ((shapes, scales), rng2) \<Rightarrow>
    (case sized n (uniform E 0 (2 * pi)) rng2 of
       Inl e \<Rightarrow> Inl e
     | Inr (angles, rng3) \<Rightarrow>
    (case choice_sized E [''x'', ''y'', ''z''] n rng3 of
       Inl e \<Rightarrow> Inl e
     | Inr (axes, rng4) \<Rightarrow>
    (case draws (nat n) (object_texture E) rng4 of (textures, rng5) \<Rightarrow>
     case draws (nat n) (get_material E) rng5 of (materials, rng6) \<Rightarrow>
       Inr (n, shapes, scales, angles, axes,
            map (\<lambda>k. get_quaternion E (axes ! k) (angles ! k)) [0..<nat n],
            textures, materials))))))"

text \<open>
  One pass of the loop: the dictionary of the scene with this seed, and the content of
  the argument's list after the pass.
\<close>

definition scene_latents ::
  "('s, 'm, 't, 'q) env \<Rightarrow> params \<Rightarrow> nat \<Rightarrow> real list \<Rightarrow>
     error + ('m, 't, 'q) latents \<times> real list" where
  "scene_latents E P seed sun_list =
    (case world_step E P (RandomState E seed) of
       Inl e \<Rightarrow> Inl e
     | Inr ((hdri_id, bg_material, floor_pos, bg_texture), rng1) \<Rightarrow>
    (case lighting_step E P sun_list rng1 of
       Inl e \<Rightarrow> Inl e
     | Inr ((sun, ambient, lgt), sun_list', rng2) \<Rightarrow>
    (case objects_step E P rng2 of
       Inl e \<Rightarrow> Inl e
     | Inr (n, shapes, scales, angles, axes, quaternions, textures, materials) \<Rightarrow>
       Inr (\<lparr> lat_seed = seed,
              lat_resolution = resolution P,
              lat_spawn_region = spawn_region P,
              lat_hdri_world = hdri_world P,
              lat_hdri_id = hdri_id,
              lat_bg_material = bg_material,
              lat_floor_position = floor_pos,
              lat_bg_texture = bg_texture,
              lat_sun_position = sun,
              lat_ambient_illumination = ambient,
              lat_lighting = lgt,
              lat_camera_position = camera_position P,
              lat_camera_look_at = camera_look_at P,
              lat_camera_focal_length = camera_focal_length P,
              lat_camera_sensor_width = camera_sensor_width P,
              lat_floor_scale = floor_scale P,
              lat_floor_friction = floor_friction P,
              lat_floor_restitution = floor_restitution P,
              lat_velocity_range = velocity_range P,
              lat_num_objects = n,
              lat_asset_source = asset_source P,
              lat_object_shapes = shapes,
              lat_object_scales = scales,
              lat_object_angles_of_rotation = angles,
              lat_object_axes_of_rotation = axes,
              lat_object_quaternions = quaternions,
              lat_object_textures = textures,
              lat_object_materials = materials \<rparr>,
            sun_list'))))"

subsection \<open>dataset.py: the loop and the whole function\<close>

fun scenes_loop ::
  "('s, 'm, 't, 'q) env \<Rightarrow> params \<Rightarrow> nat list \<Rightarrow> real list \<Rightarrow>
     error + ('m, 't, 'q) latents list \<times> real list" where
  "scenes_loop E P [] sun_list = Inr ([], sun_list)"
| "scenes_loop E P (seed # seeds) sun_list =
    (case scene_latents E P seed sun_list of
       Inl e \<Rightarrow> Inl e
     | Inr (l, sun_list1) \<Rightarrow>
         (case scenes_loop E P seeds sun_list1 of
            Inl e \<Rightarrow> Inl e
          | Inr (scenes, sun_list2) \<Rightarrow> Inr (l # scenes, sun_list2)))"

text \<open>
  The result is the list of dictionaries together with the final content of the list
  object that was passed as \<^verbatim>\<open>sun_position\<close>, which the dictionaries refer to.
\<close>

definition latent_dataset ::
  "('s, 'm, 't, 'q) env \<Rightarrow> params \<Rightarrow> error + ('m, 't, 'q) latents list \<times> real list" where
  "latent_dataset E P =
    (case validate P of
       Inl e \<Rightarrow> Inl e
     | Inr _ \<Rightarrow>
        (case choice_no_replace E 2147483647 (num_scenes P) of
           Inl e \<Rightarrow> Inl e
         | Inr seeds \<Rightarrow> scenes_loop E P seeds (sun_position P)))"

text \<open>
  The dictionary of one pass with what its \<^verbatim>\<open>sun_position\<close> reads as at the moment the
  pass ends: the numbers this pass drew. It is a state inside the loop. A caller of
  \<open>latent_dataset\<close> gets the dictionaries when the loop has ended, and reads their
  \<^verbatim>\<open>sun_position\<close> through the final content of the list (\<open>deref\<close> with the second
  component of the result).
\<close>

definition scene_value ::
  "('m, 't, 'q) latents \<times> real list \<Rightarrow> ('m, 't, 'q) latents \<times> real list field" where
  "scene_value r = (fst r, deref (snd r) (lat_sun_position (fst r)))"

subsection \<open>A small environment and the default arguments, for running the model\<close>

text \<open>
  A generator whose state is a counter: a float draw is a quarter of the counter's
  residue modulo four, a bounded draw its residue modulo the bound; the two samplers
  return what they were called with and advance the counter. The seed draw returns
  the first \<open>N\<close> numbers.
\<close>

definition toy_env :: "(nat, nat, string \<times> bool, string \<times> real) env" where
  "toy_env = \<lparr> entropy_seeds = (\<lambda>U N. [0..<N]),
               RandomState = (\<lambda>seed. seed),
               random_sample = (\<lambda>s. (real (s mod 4) / 4, Suc s)),
               random_below = (\<lambda>n s. (s mod n, Suc s)),
               get_material = (\<lambda>s. (s, Suc s)),
               get_texture = (\<lambda>kind s bg. ((kind, bg), Suc s)),
               get_quaternion = (\<lambda>axis angle. (axis, angle)),
               GSO_IDS = [''gso_a'', ''gso_b''],
               hdri_manifest = Inr [''hdri_a'', ''hdri_b''] \<rparr>"

text \<open>The default values of the signature (lines 42 to 61).\<close>

definition defaults :: params where
  "defaults = \<lparr> num_scenes = 100, resolution = [256, 144], min_num_objects = 3,
      max_num_objects = 6, spawn_region = [[- 25 / 10, - 3, 2 / 10], [25 / 10, 3, 15 / 10]],
      lighting = ''sun'', sun_position = [0, 0, 7], hdri_world = False,
      camera_position = [0, - 8, 36 / 10], camera_look_at = [0, 0, 5 / 10],
      camera_focal_length = 32, camera_sensor_width = 30,
      floor_scale = [20, 40, 1 / 100], floor_position = [0, 0, 0],
      floor_friction = Finite (3 / 10), floor_restitution = Finite (5 / 10),
      background_type = ''artificial'', asset_source = ''kubasic'',
      velocity_range = [[- 4, - 4, 0], [4, 4, 0]], dataset_comment = ''test'' \<rparr>"

definition two_scenes :: params where
  "two_scenes = defaults\<lparr>num_scenes := 2\<rparr>"

text \<open>A call for one scene in an HDRI world, lit by the HDRI.\<close>

definition hdri_scene :: params where
  "hdri_scene = defaults\<lparr>num_scenes := 1, hdri_world := True, lighting := ''ambient_hdri''\<rparr>"

text \<open>A call for one scene with objects of the GSO catalogue.\<close>

definition gso_scene :: params where
  "gso_scene = defaults\<lparr>num_scenes := 1, asset_source := ''GSO''\<rparr>"

text \<open>Calls that the checks at the head of the function refuse.\<close>

definition short_resolution :: params where
  "short_resolution = defaults\<lparr>resolution := [256]\<rparr>"

definition high_friction :: params where
  "high_friction = defaults\<lparr>floor_friction := Finite (15 / 10)\<rparr>"

definition short_corner :: params where
  "short_corner = defaults\<lparr>spawn_region := [[- 25 / 10, - 3], [25 / 10, 3, 15 / 10]]\<rparr>"

text \<open>A call with an asset source that is neither of the two catalogues.\<close>

definition other_source :: params where
  "other_source = defaults\<lparr>num_scenes := 1, asset_source := ''shapenet''\<rparr>"

text \<open>Calls for one scene whose ranges are the wrong way round.\<close>

definition inverted_region :: params where
  "inverted_region =
     defaults\<lparr>num_scenes := 1, spawn_region := [[25 / 10, 3, 15 / 10], [- 25 / 10, - 3, 2 / 10]]\<rparr>"

definition inverted_count :: params where
  "inverted_count = defaults\<lparr>num_scenes := 1, min_num_objects := 6, max_num_objects := 3\<rparr>"

text \<open>
  The same environment with another outcome of the seed draw: the even numbers
  \<open>0, 2, \<dots>\<close> instead of \<open>0, 1, \<dots>\<close>.
\<close>

definition toy_env_even :: "(nat, nat, string \<times> bool, string \<times> real) env" where
  "toy_env_even = toy_env\<lparr>entropy_seeds := (\<lambda>U N. map (\<lambda>i. 2 * i) [0..<N])\<rparr>"


text \<open>Calls with an unknown asset source: for no scene, and for one scene in an HDRI world.\<close>

definition other_source_no_scene :: params where
  "other_source_no_scene = defaults\<lparr>num_scenes := 0, asset_source := ''shapenet''\<rparr>"

definition other_source_hdri :: params where
  "other_source_hdri = defaults\<lparr>num_scenes := 1, asset_source := ''shapenet'', hdri_world := True\<rparr>"

text \<open>A call for one scene whose floor friction is the not-a-number.\<close>

definition nan_friction :: params where
  "nan_friction = defaults\<lparr>num_scenes := 1, floor_friction := NaN\<rparr>"

section \<open>Facts about the steps\<close>

lemma length_draws: "length (fst (draws n f s)) = n"
proof (induction n arbitrary: s)
  case 0
  then show ?case by simp
next
  case (Suc n)
  obtain y s1 where f: "f s = (y, s1)" by (cases "f s")
  obtain ys s2 where d: "draws n f s1 = (ys, s2)" by (cases "draws n f s1")
  from Suc.IH [of s1] d have "length ys = n" by simp
  with f d show ?case by simp
qed

lemma draws_all:
  assumes "\<And>s. Q (fst (f s))"
  shows "x \<in> set (fst (draws n f s)) \<Longrightarrow> Q x"
proof (induction n arbitrary: s)
  case 0
  then show ?case by simp
next
  case (Suc n)
  obtain y s1 where f: "f s = (y, s1)" by (cases "f s")
  obtain ys s2 where d: "draws n f s1 = (ys, s2)" by (cases "draws n f s1")
  from Suc.prems f d have "x = y \<or> x \<in> set (fst (draws n f s1))" by simp
  then show ?case
  proof
    assume "x = y"
    with assms [of s] f show ?thesis by simp
  next
    assume "x \<in> set (fst (draws n f s1))"
    then show ?thesis by (rule Suc.IH)
  qed
qed

lemma sized_Inr:
  "sized n f s = Inr (xs, s') \<Longrightarrow> 0 \<le> n \<and> length xs = nat n \<and> xs = fst (draws (nat n) f s)"
proof -
  assume a: "sized n f s = Inr (xs, s')"
  then have n: "0 \<le> n" and d: "draws (nat n) f s = (xs, s')"
    by (auto simp: sized_def split: if_splits)
  from d have "xs = fst (draws (nat n) f s)" by simp
  with n length_draws [of "nat n" f s] show ?thesis by simp
qed

lemma uniform_range:
  assumes "rng_contract E" "low \<le> high"
  shows "low \<le> fst (uniform E low high s) \<and> fst (uniform E low high s) \<le> high"
proof -
  obtain u s' where r: "random_sample E s = (u, s')" by (cases "random_sample E s")
  with assms(1) have u: "0 \<le> u" "u < 1"
    unfolding rng_contract_def by (metis fst_conv)+
  have "0 \<le> (high - low) * u" using assms(2) u by simp
  moreover have "(high - low) * u \<le> (high - low) * 1"
    using assms(2) u by (intro mult_left_mono) auto
  ultimately show ?thesis using r by (simp add: uniform_def)
qed


lemma pick_mem:
  assumes "rng_contract E" "a \<noteq> []"
  shows "fst (pick E a s) \<in> set a"
proof -
  obtain k s' where r: "random_below E (length a) s = (k, s')"
    by (cases "random_below E (length a) s")
  from assms have "fst (random_below E (length a) s) < length a"
    unfolding rng_contract_def by simp
  with r show ?thesis by (simp add: pick_def)
qed

lemma randint_range:
  assumes "rng_contract E" "randint E low high s = Inr (k, s')"
  shows "low \<le> k \<and> k < high"
proof -
  from assms(2) have lt: "low < high" by (auto simp: randint_def split: if_splits)
  obtain j s1 where r: "random_below E (nat (high - low)) s = (j, s1)"
    by (cases "random_below E (nat (high - low)) s")
  from assms(1) lt have "fst (random_below E (nat (high - low)) s) < nat (high - low)"
    unfolding rng_contract_def by simp
  with r have "int j < high - low" by simp
  with assms(2) lt r show ?thesis by (auto simp: randint_def split: if_splits)
qed

lemma choice_sized_Inr:
  "choice_sized E a n s = Inr (xs, s') \<Longrightarrow>
     0 \<le> n \<and> length xs = nat n \<and> xs = fst (draws (nat n) (pick E a) s) \<and> (a = [] \<longrightarrow> n = 0)"
  by (auto simp: choice_sized_def dest: sized_Inr split: if_splits)

lemma scene_latents_Inr:
  assumes "scene_latents E P seed sun_list = Inr (sc, sun_list')"
  obtains hid bgm fp bgt rng1 sun amb rng2 n shapes scales angles axes quats texs mats
  where "world_step E P (RandomState E seed) = Inr ((hid, bgm, fp, bgt), rng1)"
    and "lighting_step E P sun_list rng1 = Inr ((sun, amb, lighting P), sun_list', rng2)"
    and "objects_step E P rng2 = Inr (n, shapes, scales, angles, axes, quats, texs, mats)"
    and "lat_seed sc = seed \<and> lat_resolution sc = resolution P \<and>
         lat_spawn_region sc = spawn_region P \<and> lat_hdri_world sc = hdri_world P \<and>
         lat_lighting sc = lighting P \<and> lat_camera_position sc = camera_position P \<and>
         lat_camera_look_at sc = camera_look_at P \<and>
         lat_camera_focal_length sc = camera_focal_length P \<and>
         lat_camera_sensor_width sc = camera_sensor_width P \<and>
         lat_floor_scale sc = floor_scale P \<and> lat_floor_friction sc = floor_friction P \<and>
         lat_floor_restitution sc = floor_restitution P \<and>
         lat_velocity_range sc = velocity_range P \<and> lat_asset_source sc = asset_source P"
    and "lat_hdri_id sc = hid \<and> lat_bg_material sc = bgm \<and> lat_floor_position sc = fp \<and>
         lat_bg_texture sc = bgt \<and> lat_sun_position sc = sun \<and>
         lat_ambient_illumination sc = amb"
    and "lat_num_objects sc = n \<and> lat_object_shapes sc = shapes \<and>
         lat_object_scales sc = scales \<and> lat_object_angles_of_rotation sc = angles \<and>
         lat_object_axes_of_rotation sc = axes \<and> lat_object_quaternions sc = quats \<and>
         lat_object_textures sc = texs \<and> lat_object_materials sc = mats"
proof -
  from assms obtain w rng1 where w: "world_step E P (RandomState E seed) = Inr (w, rng1)"
    by (auto simp: scene_latents_def split: sum.splits)
  obtain hid bgm fp bgt where w4: "w = (hid, bgm, fp, bgt)" by (cases w)
  from assms w w4 obtain l sl rng2 where l: "lighting_step E P sun_list rng1 = Inr (l, sl, rng2)"
    by (auto simp: scene_latents_def split: sum.splits)
  obtain sun amb lgt where l3: "l = (sun, amb, lgt)" by (cases l)
  from l l3 have lgt: "lgt = lighting P"
    by (auto simp: lighting_step_def split: if_splits sum.splits prod.splits)
  from assms w w4 l l3 obtain ob where ob: "objects_step E P rng2 = Inr ob"
    by (auto simp: scene_latents_def split: sum.splits)
  obtain n shapes scales angles axes quats texs mats
    where o8: "ob = (n, shapes, scales, angles, axes, quats, texs, mats)"
    by (metis prod_cases4 prod_cases5)
  from assms w w4 l l3 ob o8 lgt have sl: "sl = sun_list'"
    by (simp add: scene_latents_def)
  from assms w w4 l l3 ob o8 lgt have sc: "sc =
       \<lparr> lat_seed = seed, lat_resolution = resolution P, lat_spawn_region = spawn_region P,
         lat_hdri_world = hdri_world P, lat_hdri_id = hid, lat_bg_material = bgm,
         lat_floor_position = fp, lat_bg_texture = bgt, lat_sun_position = sun,
         lat_ambient_illumination = amb, lat_lighting = lighting P,
         lat_camera_position = camera_position P, lat_camera_look_at = camera_look_at P,
         lat_camera_focal_length = camera_focal_length P,
         lat_camera_sensor_width = camera_sensor_width P, lat_floor_scale = floor_scale P,
         lat_floor_friction = floor_friction P, lat_floor_restitution = floor_restitution P,
         lat_velocity_range = velocity_range P, lat_num_objects = n,
         lat_asset_source = asset_source P, lat_object_shapes = shapes,
         lat_object_scales = scales, lat_object_angles_of_rotation = angles,
         lat_object_axes_of_rotation = axes, lat_object_quaternions = quats,
         lat_object_textures = texs, lat_object_materials = mats \<rparr>"
    by (simp add: scene_latents_def)
  show thesis
  proof (rule that [of hid bgm fp bgt rng1 sun amb rng2 n shapes scales angles axes quats texs mats])
    show "world_step E P (RandomState E seed) = Inr ((hid, bgm, fp, bgt), rng1)"
      using w w4 by simp
    show "lighting_step E P sun_list rng1 = Inr ((sun, amb, lighting P), sun_list', rng2)"
      using l l3 lgt sl by simp
    show "objects_step E P rng2 = Inr (n, shapes, scales, angles, axes, quats, texs, mats)"
      using ob o8 by simp
  qed (simp_all add: sc)
qed

lemma world_step_Inr:
  assumes "world_step E P rng = Inr ((hid, bgm, fp, bgt), rng1)"
  shows "if hdri_world P
         then (\<exists>h. hid = Val h) \<and> bgm = Absent \<and> fp = Absent \<and> bgt = Absent
         else hid = Null \<and> (\<exists>m. bgm = Val m) \<and> fp = Val (floor_position P) \<and> (\<exists>t. bgt = Val t)"
  using assms
  by (auto simp: world_step_def split: if_splits sum.splits prod.splits)

lemma list_assign_Inr:
  "list_assign xs i v = Inr ys \<Longrightarrow> i < length xs \<and> ys = xs[i := v]"
  by (auto simp: list_assign_def split: if_splits)

lemma lighting_step_sun:
  assumes "lighting_step E P sl rng = Inr ((sun, amb, lgt), sl', rng')" "lighting P = ''sun''"
  shows "sun = Val Arg_sun_position \<and>
         amb = Val (fst (uniform E (4 / 10) (7 / 10) (snd (uniform E (- 1) 1 (snd (uniform E (- 1) 1 rng)))))) \<and>
         2 \<le> length sl \<and>
         sl' = sl[0 := fst (uniform E (- 1) 1 rng),
                  1 := fst (uniform E (- 1) 1 (snd (uniform E (- 1) 1 rng)))]"
  using assms
  by (auto simp: lighting_step_def split: sum.splits prod.splits dest!: list_assign_Inr)

lemma lighting_step_ambient:
  assumes "lighting_step E P sl rng = Inr ((sun, amb, lgt), sl', rng')" "lighting P \<noteq> ''sun''"
  shows "lighting P = ''ambient_hdri'' \<and> sun = Null \<and> amb = Null \<and> sl' = sl \<and> rng' = rng"
  using assms
  by (auto simp: lighting_step_def split: if_splits)

lemma lighting_step_length:
  assumes "lighting_step E P sl rng = Inr (l, sl', rng')"
  shows "length sl' = length sl \<and> drop 2 sl' = drop 2 sl"
proof -
  obtain sun amb lgt where l: "l = (sun, amb, lgt)" by (cases l)
  show ?thesis
  proof (cases "lighting P = ''sun''")
    case True
    from lighting_step_sun [OF assms [unfolded l] True] show ?thesis
      by (simp add: drop_update_cancel)
  next
    case False
    from lighting_step_ambient [OF assms [unfolded l] False] show ?thesis by simp
  qed
qed

lemma shapes_step_Inr:
  assumes "shapes_step E P n rng = Inr ((shapes, scales), rng')"
  shows "0 \<le> n \<and> length shapes = nat n \<and> length scales = nat n \<and>
         (asset_source P = ''kubasic'' \<or> asset_source P = ''GSO'') \<and>
         (asset_source P = ''kubasic'' \<longrightarrow>
            (\<exists>r. scales = fst (draws (nat n) (uniform E (6 / 10) (12 / 10)) r)) \<and>
            shapes = fst (draws (nat n) (pick E KUBASIC_IDS) rng)) \<and>
         (asset_source P \<noteq> ''kubasic'' \<longrightarrow>
            (\<exists>r. scales = fst (draws (nat n) (uniform E 6 10) r)) \<and>
            shapes = fst (draws (nat n) (pick E (GSO_IDS E)) rng) \<and> (GSO_IDS E = [] \<longrightarrow> n = 0))"
  using assms
  by (auto simp: shapes_step_def split: if_splits sum.splits dest!: sized_Inr choice_sized_Inr)

lemma objects_step_Inr:
  assumes "objects_step E P rng = Inr (n, shapes, scales, angles, axes, quats, texs, mats)"
  obtains rng1 rng2 rng3 rng4 rng5
  where "randint E (min_num_objects P) (max_num_objects P + 1) rng = Inr (n, rng1)"
    and "shapes_step E P n rng1 = Inr ((shapes, scales), rng2)"
    and "angles = fst (draws (nat n) (uniform E 0 (2 * pi)) rng2)"
    and "axes = fst (draws (nat n) (pick E [''x'', ''y'', ''z'']) rng3)"
    and "quats = map (\<lambda>k. get_quaternion E (axes ! k) (angles ! k)) [0..<nat n]"
    and "texs = fst (draws (nat n) (object_texture E) rng4)"
    and "mats = fst (draws (nat n) (get_material E) rng5)"
proof -
  from assms obtain rng1 where r: "randint E (min_num_objects P) (max_num_objects P + 1) rng = Inr (n, rng1)"
    by (auto simp: objects_step_def split: sum.splits prod.splits)
  from assms r obtain rng2 where s: "shapes_step E P n rng1 = Inr ((shapes, scales), rng2)"
    by (auto simp: objects_step_def split: sum.splits prod.splits)
  from assms r s obtain rng3 where a: "sized n (uniform E 0 (2 * pi)) rng2 = Inr (angles, rng3)"
    by (auto simp: objects_step_def split: sum.splits prod.splits)
  from assms r s a obtain rng4 where x: "choice_sized E [''x'', ''y'', ''z''] n rng3 = Inr (axes, rng4)"
    by (auto simp: objects_step_def split: sum.splits prod.splits)
  obtain rng5 where t: "draws (nat n) (object_texture E) rng4 = (texs, rng5)"
    using assms r s a x by (auto simp: objects_step_def split: sum.splits prod.splits)
  show thesis
    apply (rule that [of rng1 rng2 rng3 rng4 rng5])
    using assms r s a x t sized_Inr [OF a] choice_sized_Inr [OF x]
    by (auto simp: objects_step_def split: prod.splits)
qed

lemma scenes_loop_Inr:
  "scenes_loop E P seeds sl = Inr (scs, sl') \<Longrightarrow>
     map lat_seed scs = seeds \<and> length sl' = length sl \<and> drop 2 sl' = drop 2 sl \<and>
     (\<forall>sc \<in> set scs. \<exists>c0 c1. length c0 = length sl \<and> drop 2 c0 = drop 2 sl \<and>
         scene_latents E P (lat_seed sc) c0 = Inr (sc, c1))"
proof (induction seeds arbitrary: sl scs)
  case Nil
  then show ?case by simp
next
  case (Cons seed seeds)
  from Cons.prems obtain l sl1 where h: "scene_latents E P seed sl = Inr (l, sl1)"
    by (auto split: sum.splits)
  from Cons.prems h obtain rest where t: "scenes_loop E P seeds sl1 = Inr (rest, sl')"
    and scs: "scs = l # rest"
    by (auto split: sum.splits)
  from h have seed: "lat_seed l = seed" by (elim scene_latents_Inr) simp
  from h have len: "length sl1 = length sl \<and> drop 2 sl1 = drop 2 sl"
    by (elim scene_latents_Inr) (auto dest: lighting_step_length)
  from Cons.IH [OF t] len h seed scs show ?case by auto
qed

lemma latent_dataset_Inr:
  assumes "latent_dataset E P = Inr (scs, sl)"
  obtains seeds where "validate P = Inr ()"
    and "choice_no_replace E 2147483647 (num_scenes P) = Inr seeds"
    and "scenes_loop E P seeds (sun_position P) = Inr (scs, sl)"
  using assms by (auto simp: latent_dataset_def split: sum.splits)

lemma validate_Inr:
  "validate P = Inr () \<Longrightarrow>
     length (resolution P) = 2 \<and> length (spawn_region P) = 2 \<and>
     (\<forall>sr \<in> set (spawn_region P). length sr = 3) \<and> length (sun_position P) = 3 \<and>
     length (camera_position P) = 3 \<and> length (camera_look_at P) = 3 \<and>
     length (floor_scale P) = 3 \<and> length (floor_position P) = 3 \<and>
     \<not> float_lt (Finite 1) (floor_friction P) \<and> \<not> float_lt (floor_friction P) (Finite 0) \<and>
     \<not> float_lt (Finite 1) (floor_restitution P) \<and>
     \<not> float_lt (floor_restitution P) (Finite 0)"
  by (simp add: validate_def list_ex_iff split: if_splits)

lemma sun_updates_eq:
  assumes "length c1 = length c2" "drop 2 c1 = drop 2 c2"
  shows "c1[0 := x, 1 := y] = c2[0 := x, 1 := y]"
proof (rule nth_equalityI)
  show "length (c1[0 := x, 1 := y]) = length (c2[0 := x, 1 := y])" using assms(1) by simp
next
  fix i assume i: "i < length (c1[0 := x, 1 := y])"
  show "c1[0 := x, 1 := y] ! i = c2[0 := x, 1 := y] ! i"
  proof (cases "i < 2")
    case True
    then have "i = 0 \<or> i = 1" by auto
    with i assms(1) show ?thesis by auto
  next
    case False
    then obtain j where j: "i = 2 + j" by (metis le_add_diff_inverse not_less)
    from i j assms(1) have "c1 ! (2 + j) = drop 2 c1 ! j" "c2 ! (2 + j) = drop 2 c2 ! j"
      by simp_all
    with assms(2) j i show ?thesis by simp
  qed
qed

lemma lighting_step_same:
  assumes "length c1 = length c2" "drop 2 c1 = drop 2 c2" "lighting P = ''sun''"
  shows "lighting_step E P c1 rng = lighting_step E P c2 rng"
proof -
  obtain x rng1 where x: "uniform E (- 1) 1 rng = (x, rng1)" by (cases "uniform E (- 1) 1 rng")
  obtain y rng2 where y: "uniform E (- 1) 1 rng1 = (y, rng2)" by (cases "uniform E (- 1) 1 rng1")
  have "(c1[0 := x])[1 := y] = (c2[0 := x])[1 := y]"
    using sun_updates_eq [OF assms(1,2)] by simp
  then show ?thesis
    using assms(1,3) x y by (simp add: lighting_step_def list_assign_def)
qed

lemma scene_latents_cong:
  assumes "length c1 = length c2" and "drop 2 c1 = drop 2 c2"
  shows "map_sum id scene_value (scene_latents E P seed c1) =
         map_sum id scene_value (scene_latents E P seed c2)"
proof (cases "world_step E P (RandomState E seed)")
  case (Inl e)
  then show ?thesis by (simp add: scene_latents_def)
next
  case (Inr w)
  obtain k rng1 where "w = (k, rng1)" by (cases w)
  moreover obtain hid bgm fp bgt where "k = (hid, bgm, fp, bgt)" by (cases k)
  ultimately have w: "w = ((hid, bgm, fp, bgt), rng1)" by simp
  show ?thesis
  proof (cases "lighting P = ''sun''")
    case True
    from lighting_step_same [OF assms True, of E rng1] Inr w show ?thesis
      by (simp add: scene_latents_def)
  next
    case False
    then show ?thesis using Inr w
      by (auto simp: scene_latents_def scene_value_def lighting_step_def split: sum.splits)
  qed
qed

lemma dataset_scene:
  assumes "latent_dataset E P = Inr (scs, sl)" and "sc \<in> set scs"
  obtains c0 c1 where "scene_latents E P (lat_seed sc) c0 = Inr (sc, c1)"
    and "validate P = Inr ()" and "length c0 = 3" and "length sl = 3"
proof -
  from assms(1) obtain seeds where v: "validate P = Inr ()"
    and l: "scenes_loop E P seeds (sun_position P) = Inr (scs, sl)"
    by (rule latent_dataset_Inr)
  from validate_Inr [OF v] have len: "length (sun_position P) = 3" by simp
  from scenes_loop_Inr [OF l] assms(2) len obtain c0 c1
    where "length c0 = 3" "scene_latents E P (lat_seed sc) c0 = Inr (sc, c1)" "length sl = 3"
    by auto
  with v show thesis by (intro that)
qed

lemma object_texture_kind:
  assumes "rng_contract E"
  shows "\<exists>kind rng. kind \<in> set TEXTURES \<and> fst (object_texture E s) = fst (get_texture E kind rng False)"
proof -
  obtain kind rng1 where p: "pick E TEXTURES s = (kind, rng1)" by (cases "pick E TEXTURES s")
  have "TEXTURES \<noteq> []" by (simp add: TEXTURES_def)
  from pick_mem [OF assms this, of s] p have "kind \<in> set TEXTURES" by simp
  moreover from p have "fst (object_texture E s) = fst (get_texture E kind rng1 False)"
    by (simp add: object_texture_def)
  ultimately show ?thesis by blast
qed


lemma validate_Inl: "validate P = Inl e \<Longrightarrow> is_ValueError e"
  by (auto simp: validate_def split: if_splits)




lemma world_step_Inl:
  "world_step E P rng = Inl e \<Longrightarrow> is_ValueError e \<or> (hdri_world P \<and> hdri_manifest E = Inl e)"
  by (auto simp: world_step_def get_hdri_id_def choice_def split: if_splits sum.splits prod.splits)

lemma lighting_step_Inl:
  "lighting_step E P sl rng = Inl e \<Longrightarrow> 2 \<le> length sl \<Longrightarrow> is_ValueError e"
  by (auto simp: lighting_step_def list_assign_def split: if_splits sum.splits prod.splits)

lemma objects_step_low_high:
  "max_num_objects P < min_num_objects P \<Longrightarrow> \<exists>m. objects_step E P rng = Inl (ValueError m)"
  by (simp add: objects_step_def randint_def)


lemma lighting_step_unknown:
  assumes "lighting P \<noteq> ''sun''" and "lighting P \<noteq> ''ambient_hdri''"
  shows "\<exists>m. lighting_step E P sl rng = Inl (ValueError m)"
  using assms by (simp add: lighting_step_def)

text \<open>
  A pass whose lighting branch or whose object part always raises a \<open>ValueError\<close> fails:
  with a \<open>ValueError\<close>, or with what loading the HDRI manifest raised before.
\<close>

lemma scene_latents_fails:
  assumes "(\<forall>c rng. \<exists>m. lighting_step E P c rng = Inl (ValueError m)) \<or>
           (\<forall>rng. \<exists>m. objects_step E P rng = Inl (ValueError m))"
    and "2 \<le> length sl"
  shows "\<exists>e. scene_latents E P seed sl = Inl e \<and>
              (is_ValueError e \<or> (hdri_world P \<and> hdri_manifest E = Inl e))"
proof (cases "world_step E P (RandomState E seed)")
  case (Inl e)
  with world_step_Inl [OF Inl] show ?thesis by (simp add: scene_latents_def)
next
  case (Inr w)
  obtain k rng1 where "w = (k, rng1)" by (cases w)
  moreover obtain hid bgm fp bgt where "k = (hid, bgm, fp, bgt)" by (cases k)
  ultimately have w: "world_step E P (RandomState E seed) = Inr ((hid, bgm, fp, bgt), rng1)"
    using Inr by simp
  show ?thesis
  proof (cases "lighting_step E P sl rng1")
    case (Inl e)
    with lighting_step_Inl [OF Inl assms(2)] w show ?thesis by (simp add: scene_latents_def)
  next
    case (Inr l)
    obtain k sl' rng2 where "l = (k, sl', rng2)" by (cases l)
    moreover obtain sun amb lgt where "k = (sun, amb, lgt)" by (cases k)
    ultimately have l: "lighting_step E P sl rng1 = Inr ((sun, amb, lgt), sl', rng2)"
      using Inr by simp
    with assms(1) obtain m where "objects_step E P rng2 = Inl (ValueError m)"
      by (metis Inl_Inr_False)
    with w l show ?thesis by (simp add: scene_latents_def)
  qed
qed

text \<open>Then a call that asks for at least one scene fails in the same way.\<close>

lemma dataset_fails:
  assumes "seeds_contract E" and "0 < num_scenes P"
    and "(\<forall>c rng. \<exists>m. lighting_step E P c rng = Inl (ValueError m)) \<or>
         (\<forall>rng. \<exists>m. objects_step E P rng = Inl (ValueError m))"
  shows "\<exists>e. latent_dataset E P = Inl e \<and>
              (is_ValueError e \<or> (hdri_world P \<and> hdri_manifest E = Inl e))"
proof (cases "validate P")
  case (Inl e)
  with validate_Inl [OF Inl] show ?thesis by (simp add: latent_dataset_def)
next
  case (Inr u)
  then have v: "validate P = Inr ()" by simp
  from validate_Inr [OF v] have len: "2 \<le> length (sun_position P)" by simp
  show ?thesis
  proof (cases "num_scenes P \<le> 2147483647")
    case False
    with v assms(2) show ?thesis by (simp add: latent_dataset_def choice_no_replace_def)
  next
    case True
    let ?seeds = "entropy_seeds E 2147483647 (nat (num_scenes P))"
    from True assms(2) have c: "choice_no_replace E 2147483647 (num_scenes P) = Inr ?seeds"
      by (simp add: choice_no_replace_def)
    from True have "nat (num_scenes P) \<le> 2147483647" by simp
    with assms(1) have "length ?seeds = nat (num_scenes P)"
      unfolding seeds_contract_def by blast
    with assms(2) obtain seed rest where s: "?seeds = seed # rest"
      by (cases ?seeds) auto
    from scene_latents_fails [OF assms(3) len, of seed] v c s show ?thesis
      by (auto simp: latent_dataset_def)
  qed
qed


lemma unknown_lighting_fails:
  assumes "seeds_contract E" and "0 < num_scenes P"
    and "lighting P \<noteq> ''sun''" and "lighting P \<noteq> ''ambient_hdri''"
  shows "\<exists>e. latent_dataset E P = Inl e \<and>
              (is_ValueError e \<or> (hdri_world P \<and> hdri_manifest E = Inl e))"
proof -
  have "\<forall>c rng. \<exists>m. lighting_step E P c rng = Inl (ValueError m)"
    using lighting_step_unknown [OF assms(3,4), of E] by simp
  then show ?thesis by (intro dataset_fails [OF assms(1,2)]) simp
qed

subsection \<open>The one list behind every \<^verbatim>\<open>sun_position\<close>\<close>

text \<open>When the loop ends, the list holds what the pass for the last seed left in it.\<close>

lemma scenes_loop_last:
  "scenes_loop E P seeds sl = Inr (scs, sl') \<Longrightarrow> seeds \<noteq> [] \<Longrightarrow>
     scs \<noteq> [] \<and>
     (\<exists>c0. length c0 = length sl \<and> drop 2 c0 = drop 2 sl \<and>
           scene_latents E P (lat_seed (last scs)) c0 = Inr (last scs, sl'))"
proof (induction seeds arbitrary: sl scs)
  case Nil
  then show ?case by simp
next
  case (Cons seed seeds)
  from Cons.prems obtain l sl1 where h: "scene_latents E P seed sl = Inr (l, sl1)"
    by (auto split: sum.splits)
  from Cons.prems h obtain rest where t: "scenes_loop E P seeds sl1 = Inr (rest, sl')"
    and scs: "scs = l # rest"
    by (auto split: sum.splits)
  from h have seed: "lat_seed l = seed" by (elim scene_latents_Inr) simp
  from h have len: "length sl1 = length sl \<and> drop 2 sl1 = drop 2 sl"
    by (elim scene_latents_Inr) (auto dest: lighting_step_length)
  show ?case
  proof (cases "seeds = []")
    case True
    with t have "rest = []" "sl' = sl1" by simp_all
    with h seed scs show ?thesis by auto
  next
    case False
    from Cons.IH [OF t False] len scs show ?thesis by auto
  qed
qed

text \<open>
  So in a sun-lit call that returns, every dictionary reads, under \<^verbatim>\<open>sun_position\<close>, the
  list as the pass for the last seed left it: the sun position drawn for the last scene.
\<close>

lemma every_scene_reads_last_draw:
  assumes "latent_dataset E P = Inr (scs, sl)" and "lighting P = ''sun''" and "sc \<in> set scs"
  shows "deref sl (lat_sun_position sc) = Val sl \<and>
         map_sum id scene_value (scene_latents E P (lat_seed (last scs)) (sun_position P)) =
           Inr (last scs, Val sl)"
proof -
  from assms(1) obtain seeds where v: "validate P = Inr ()"
    and l: "scenes_loop E P seeds (sun_position P) = Inr (scs, sl)"
    by (rule latent_dataset_Inr)
  from assms(1,3) obtain c0 c1 where s: "scene_latents E P (lat_seed sc) c0 = Inr (sc, c1)"
    by (rule dataset_scene)
  from s obtain rng1 sun amb rng2
    where ls: "lighting_step E P c0 rng1 = Inr ((sun, amb, lighting P), c1, rng2)"
      and "lat_sun_position sc = sun"
    by (elim scene_latents_Inr) simp
  with lighting_step_sun [OF ls assms(2)] have own: "lat_sun_position sc = Val Arg_sun_position"
    by simp
  from scenes_loop_Inr [OF l] assms(3) have "seeds \<noteq> []" by auto
  from scenes_loop_last [OF l this] obtain c where ne: "scs \<noteq> []"
    and c: "length c = length (sun_position P)" "drop 2 c = drop 2 (sun_position P)"
    and last: "scene_latents E P (lat_seed (last scs)) c = Inr (last scs, sl)"
    by blast
  from last obtain rng1' sun' amb' rng2'
    where ls': "lighting_step E P c rng1' = Inr ((sun', amb', lighting P), sl, rng2')"
      and "lat_sun_position (last scs) = sun'"
    by (elim scene_latents_Inr) simp
  with lighting_step_sun [OF ls' assms(2)] have "lat_sun_position (last scs) = Val Arg_sun_position"
    by simp
  with last have "map_sum id scene_value (scene_latents E P (lat_seed (last scs)) c) =
      Inr (last scs, Val sl)"
    by (simp add: scene_value_def)
  with scene_latents_cong [OF c, of E P "lat_seed (last scs)"] own show ?thesis by simp
qed

subsection \<open>Running the model\<close>

lemma draws_numeral:
  "draws (numeral k) f s =
     (case f s of (x, s1) \<Rightarrow> (case draws (pred_numeral k) f s1 of (xs, s2) \<Rightarrow> (x # xs, s2)))"
  by (simp add: numeral_eq_Suc)

lemmas toy_eval =
  latent_dataset_def validate_def choice_no_replace_def toy_env_def
  scene_latents_def world_step_def lighting_step_def objects_step_def shapes_step_def
  object_texture_def pick_def choice_def choice_sized_def sized_def uniform_def randint_def
  list_assign_def get_hdri_id_def TEXTURES_def KUBASIC_IDS_def upt_conv_Cons draws_numeral

lemma toy_rng_contract: "rng_contract toy_env"
  by (simp add: rng_contract_def toy_env_def)

lemma toy_seeds_contract: "seeds_contract toy_env"
  by (simp add: seeds_contract_def toy_env_def)

lemmas example_params = two_scenes_def hdri_scene_def gso_scene_def short_resolution_def
  high_friction_def short_corner_def other_source_def
  inverted_region_def inverted_count_def other_source_no_scene_def other_source_hdri_def
  nan_friction_def defaults_def

lemma two_scenes_run:
  "\<exists>a b sl. latent_dataset toy_env two_scenes = Inr ([a, b], sl) \<and>
     lat_seed a = 0 \<and> lat_seed b = 1 \<and> sl = [- 1, - (1 / 2), 7] \<and>
     lat_hdri_world a = False \<and> lat_lighting a = ''sun'' \<and>
     lat_sun_position a = Val Arg_sun_position \<and> lat_sun_position b = Val Arg_sun_position \<and>
     lat_asset_source a = ''kubasic'' \<and> lat_num_objects a = 5 \<and>
     lat_object_textures a = [(''NONE'', False), (''DISTORTED_NOISE'', False),
       (''MARBLE'', False), (''STUCCI'', False), (''WOOD'', False)]"
  by (simp add: toy_eval example_params)

lemma two_scenes_even_run:
  "\<exists>a b sl. latent_dataset toy_env_even two_scenes = Inr ([a, b], sl) \<and>
     lat_seed a = 0 \<and> lat_seed b = 2 \<and> sl = [- (1 / 2), 0, 7] \<and>
     lat_sun_position a = Val Arg_sun_position"
  by (simp add: toy_eval toy_env_even_def example_params)

lemma hdri_scene_run:
  "\<exists>a sl. latent_dataset toy_env hdri_scene = Inr ([a], sl) \<and>
     lat_hdri_world a = True \<and> lat_lighting a = ''ambient_hdri'' \<and>
     lat_floor_position a = Absent"
  by (simp add: toy_eval example_params)


section \<open>The claims\<close>

subsection \<open>C1: one seed, one configuration\<close>

text \<open>
  C1 asks that the configuration of a scene be fixed by its seed and the parameters
  alone. The dictionary of a scene holds, as \<^verbatim>\<open>sun_position\<close>, the list object of the caller
  (line 199), and every later pass of the loop overwrites the first two entries of that
  list (lines 200 and 201): what a returned dictionary reads there is what the pass for
  the last seed of the call drew (\<open>every_scene_reads_last_draw\<close>), so it depends on
  the other seeds of the call. Two calls for two scenes with the default arguments,
  whose seed draws give 0, 1 and 0, 2: the dictionary for seed 0 is the same record in
  both, and its \<^verbatim>\<open>sun_position\<close> reads \<open>-1, -1/2, 7\<close> after the first call and
  \<open>-1/2, 0, 7\<close> after the second.
\<close>

theorem same_seed_reads_other_sun_position:
  "\<not> isl (latent_dataset toy_env two_scenes) \<and>
   \<not> isl (latent_dataset toy_env_even two_scenes) \<and>
   (let r1 = projr (latent_dataset toy_env two_scenes);
        r2 = projr (latent_dataset toy_env_even two_scenes) in
      map lat_seed (fst r1) = [0, 1] \<and> map lat_seed (fst r2) = [0, 2] \<and>
      fst r1 ! 0 = fst r2 ! 0 \<and>
      deref (snd r1) (lat_sun_position (fst r1 ! 0)) = Val [- 1, - (1 / 2), 7] \<and>
      deref (snd r2) (lat_sun_position (fst r2 ! 0)) = Val [- (1 / 2), 0, 7])"
proof -
  obtain a b sl where r1: "latent_dataset toy_env two_scenes = Inr ([a, b], sl)"
    and f1: "lat_seed a = 0" "lat_seed b = 1" "sl = [- 1, - (1 / 2), 7]"
      "lat_sun_position a = Val Arg_sun_position"
    using two_scenes_run by blast
  obtain a' b' sl' where r2: "latent_dataset toy_env_even two_scenes = Inr ([a', b'], sl')"
    and f2: "lat_seed a' = 0" "lat_seed b' = 2" "sl' = [- (1 / 2), 0, 7]"
      "lat_sun_position a' = Val Arg_sun_position"
    using two_scenes_even_run by blast
  have "fst (projr (latent_dataset toy_env two_scenes)) ! 0 =
        fst (projr (latent_dataset toy_env_even two_scenes)) ! 0"
    by (simp add: toy_eval toy_env_even_def example_params)
  with r1 r2 have "a = a'" by simp
  with r1 r2 f1 f2 show ?thesis by simp
qed

subsection \<open>C2: the seeds\<close>

text \<open>
  C2. The seeds come from numpy's generator seeded by the operating system, by a draw
  without replacement. That the draw is uniform is a statement about a probability
  distribution; that it gives as many numbers as asked for, distinct and below the
  bound, is a property of numpy. What the function does with the outcome of the draw
  can be stated: the dictionaries of a call that returns carry exactly the drawn
  numbers as their seeds, one each, in the order of the draw.
\<close>

lemma drawn_seeds_carried:
  assumes "latent_dataset E P = Inr (scs, sl)"
  shows "choice_no_replace E 2147483647 (num_scenes P) = Inr (map lat_seed scs)"
proof -
  from assms obtain seeds where c: "choice_no_replace E 2147483647 (num_scenes P) = Inr seeds"
    and l: "scenes_loop E P seeds (sun_position P) = Inr (scs, sl)"
    by (rule latent_dataset_Inr)
  from scenes_loop_Inr [OF l] have "map lat_seed scs = seeds" by simp
  with c show ?thesis by simp
qed

subsection \<open>C7: the number of objects and the lengths of the per-object arrays\<close>

text \<open>
  C7. In every dictionary of a call that returns, \<^verbatim>\<open>num_objects\<close> lies between
  \<^verbatim>\<open>min_num_objects\<close> and \<^verbatim>\<open>max_num_objects\<close>, both included, and each of the seven
  per-object arrays has exactly \<^verbatim>\<open>num_objects\<close> entries.
\<close>

theorem num_objects_and_array_lengths:
  assumes "rng_contract E" and "latent_dataset E P = Inr (scs, sl)" and "sc \<in> set scs"
  shows "min_num_objects P \<le> lat_num_objects sc \<and> lat_num_objects sc \<le> max_num_objects P \<and>
         0 \<le> lat_num_objects sc \<and>
         length (lat_object_shapes sc) = nat (lat_num_objects sc) \<and>
         length (lat_object_scales sc) = nat (lat_num_objects sc) \<and>
         length (lat_object_angles_of_rotation sc) = nat (lat_num_objects sc) \<and>
         length (lat_object_axes_of_rotation sc) = nat (lat_num_objects sc) \<and>
         length (lat_object_quaternions sc) = nat (lat_num_objects sc) \<and>
         length (lat_object_textures sc) = nat (lat_num_objects sc) \<and>
         length (lat_object_materials sc) = nat (lat_num_objects sc)"
proof -
  from assms(2,3) obtain c0 c1 where "scene_latents E P (lat_seed sc) c0 = Inr (sc, c1)"
    by (rule dataset_scene)
  then obtain rng2 n shapes scales angles axes quats texs mats
    where o: "objects_step E P rng2 = Inr (n, shapes, scales, angles, axes, quats, texs, mats)"
      and sc: "lat_num_objects sc = n" "lat_object_shapes sc = shapes"
        "lat_object_scales sc = scales" "lat_object_angles_of_rotation sc = angles"
        "lat_object_axes_of_rotation sc = axes" "lat_object_quaternions sc = quats"
        "lat_object_textures sc = texs" "lat_object_materials sc = mats"
    by (elim scene_latents_Inr) simp
  from o obtain rng rng1 rng3 rng4 rng5 rng6
    where r: "randint E (min_num_objects P) (max_num_objects P + 1) rng = Inr (n, rng1)"
      and s: "shapes_step E P n rng1 = Inr ((shapes, scales), rng3)"
      and l: "angles = fst (draws (nat n) (uniform E 0 (2 * pi)) rng3)"
        "axes = fst (draws (nat n) (pick E [''x'', ''y'', ''z'']) rng4)"
        "quats = map (\<lambda>k. get_quaternion E (axes ! k) (angles ! k)) [0..<nat n]"
        "texs = fst (draws (nat n) (object_texture E) rng5)"
        "mats = fst (draws (nat n) (get_material E) rng6)"
    by (elim objects_step_Inr) blast
  from randint_range [OF assms(1) r] have "min_num_objects P \<le> n" "n \<le> max_num_objects P"
    by simp_all
  moreover from shapes_step_Inr [OF s] have "0 \<le> n" "length shapes = nat n" "length scales = nat n"
    by simp_all
  moreover from l have "length angles = nat n" "length axes = nat n" "length quats = nat n"
    "length texs = nat n" "length mats = nat n"
    by (simp_all add: length_draws)
  ultimately show ?thesis using sc by simp
qed

theorem num_objects_and_array_lengths_witness:
  "\<not> isl (latent_dataset toy_env two_scenes) \<and>
   (let sc = hd (fst (projr (latent_dataset toy_env two_scenes))) in
      3 \<le> lat_num_objects sc \<and> lat_num_objects sc \<le> 6 \<and>
      length (lat_object_shapes sc) = nat (lat_num_objects sc) \<and>
      length (lat_object_quaternions sc) = nat (lat_num_objects sc) \<and>
      length (lat_object_textures sc) = nat (lat_num_objects sc) \<and>
      length (lat_object_materials sc) = nat (lat_num_objects sc))"
proof -
  obtain a b sl where r: "latent_dataset toy_env two_scenes = Inr ([a, b], sl)"
    using two_scenes_run by blast
  have "a \<in> set [a, b]" by simp
  from num_objects_and_array_lengths [OF toy_rng_contract r this] r
  show ?thesis by (simp add: two_scenes_def defaults_def)
qed

subsection \<open>C4: which keys go with which world and which lighting\<close>

text \<open>
  C4. In every dictionary of a call that returns: with \<^verbatim>\<open>hdri_world\<close> true, \<^verbatim>\<open>hdri_id\<close> has
  a value and the keys \<^verbatim>\<open>bg_material\<close> and \<^verbatim>\<open>bg_texture\<close> are absent; with \<^verbatim>\<open>hdri_world\<close>
  false, \<^verbatim>\<open>hdri_id\<close> is \<^verbatim>\<open>None\<close> and both keys have a value; with lighting \<^verbatim>\<open>"sun"\<close>,
  \<^verbatim>\<open>sun_position\<close> reads as a list and \<^verbatim>\<open>ambient_illumination\<close> lies between 0.4 and 0.7;
  with lighting \<^verbatim>\<open>"ambient_hdri"\<close>, both are \<^verbatim>\<open>None\<close>.
\<close>

theorem world_and_lighting_keys:
  assumes "rng_contract E" and "latent_dataset E P = Inr (scs, sl)" and "sc \<in> set scs"
  shows "(lat_hdri_world sc \<longrightarrow>
            (\<exists>h. lat_hdri_id sc = Val h) \<and> lat_bg_material sc = Absent \<and>
            lat_bg_texture sc = Absent) \<and>
         (\<not> lat_hdri_world sc \<longrightarrow>
            lat_hdri_id sc = Null \<and> (\<exists>m. lat_bg_material sc = Val m) \<and>
            (\<exists>t. lat_bg_texture sc = Val t)) \<and>
         (lat_lighting sc = ''sun'' \<longrightarrow>
            deref sl (lat_sun_position sc) = Val sl \<and>
            (\<exists>a. lat_ambient_illumination sc = Val a \<and> 4 / 10 \<le> a \<and> a \<le> 7 / 10)) \<and>
         (lat_lighting sc = ''ambient_hdri'' \<longrightarrow>
            lat_sun_position sc = Null \<and> lat_ambient_illumination sc = Null)"
proof -
  from assms(2,3) obtain c0 c1 where "scene_latents E P (lat_seed sc) c0 = Inr (sc, c1)"
    by (rule dataset_scene)
  then obtain hid bgm fp bgt rng1 sun amb rng2
    where w: "world_step E P (RandomState E (lat_seed sc)) = Inr ((hid, bgm, fp, bgt), rng1)"
      and l: "lighting_step E P c0 rng1 = Inr ((sun, amb, lighting P), c1, rng2)"
      and f: "lat_hdri_world sc = hdri_world P" "lat_lighting sc = lighting P"
        "lat_hdri_id sc = hid" "lat_bg_material sc = bgm" "lat_bg_texture sc = bgt"
        "lat_sun_position sc = sun" "lat_ambient_illumination sc = amb"
    by (elim scene_latents_Inr) simp
  have world: "if hdri_world P
      then (\<exists>h. hid = Val h) \<and> bgm = Absent \<and> bgt = Absent
      else hid = Null \<and> (\<exists>m. bgm = Val m) \<and> (\<exists>t. bgt = Val t)"
    using world_step_Inr [OF w] by (simp split: if_splits)
  have sun: "sun = Val Arg_sun_position \<and> (\<exists>a. amb = Val a \<and> 4 / 10 \<le> a \<and> a \<le> 7 / 10)"
    if "lighting P = ''sun''"
  proof -
    from lighting_step_sun [OF l that] obtain r where "sun = Val Arg_sun_position"
      and "amb = Val (fst (uniform E (4 / 10) (7 / 10) r))" by blast
    moreover have "4 / 10 \<le> fst (uniform E (4 / 10) (7 / 10) r) \<and>
        fst (uniform E (4 / 10) (7 / 10) r) \<le> 7 / 10"
      by (rule uniform_range [OF assms(1)]) simp
    ultimately show ?thesis by simp
  qed
  have amb: "sun = Null \<and> amb = Null" if "lighting P = ''ambient_hdri''"
  proof -
    from that have "lighting P \<noteq> ''sun''" by simp
    from lighting_step_ambient [OF l this] show ?thesis by simp
  qed
  from world sun amb f show ?thesis by (auto split: if_splits)
qed

theorem world_and_lighting_keys_witness:
  "\<not> isl (latent_dataset toy_env two_scenes) \<and>
   (let sc = hd (fst (projr (latent_dataset toy_env two_scenes)));
        sl = snd (projr (latent_dataset toy_env two_scenes)) in
      \<not> lat_hdri_world sc \<and> lat_hdri_id sc = Null \<and> lat_bg_material sc \<noteq> Absent \<and>
      lat_bg_texture sc \<noteq> Absent \<and> lat_lighting sc = ''sun'' \<and>
      deref sl (lat_sun_position sc) = Val sl \<and> lat_ambient_illumination sc \<noteq> Null) \<and>
   \<not> isl (latent_dataset toy_env hdri_scene) \<and>
   (let sc = hd (fst (projr (latent_dataset toy_env hdri_scene))) in
      lat_hdri_world sc \<and> lat_hdri_id sc \<noteq> Null \<and> lat_bg_material sc = Absent \<and>
      lat_bg_texture sc = Absent \<and> lat_lighting sc = ''ambient_hdri'' \<and>
      lat_sun_position sc = Null \<and> lat_ambient_illumination sc = Null)"
proof -
  obtain a b sl where r: "latent_dataset toy_env two_scenes = Inr ([a, b], sl)"
    and a: "lat_hdri_world a = False" "lat_lighting a = ''sun''"
    using two_scenes_run by blast
  obtain h sl' where r': "latent_dataset toy_env hdri_scene = Inr ([h], sl')"
    and h: "lat_hdri_world h = True" "lat_lighting h = ''ambient_hdri''"
    using hdri_scene_run by blast
  have "a \<in> set [a, b]" "h \<in> set [h]" by simp_all
  from world_and_lighting_keys [OF toy_rng_contract r this(1)]
    world_and_lighting_keys [OF toy_rng_contract r' this(2)] r r' a h
  show ?thesis by auto
qed

subsection \<open>C10: the kinds of the object textures\<close>

text \<open>
  C10. Every entry of \<^verbatim>\<open>object_textures\<close> is what \<^verbatim>\<open>get_texture\<close> returns for a kind of the
  list \<open>TEXTURES\<close>, called as a non-background texture; the kind \<^verbatim>\<open>IMAGE\<close> is not in that
  list. Neither \<^verbatim>\<open>background_type\<close> nor \<^verbatim>\<open>asset_source\<close> has a part in it.
\<close>

theorem object_textures_from_palette:
  assumes "rng_contract E" and "latent_dataset E P = Inr (scs, sl)" and "sc \<in> set scs"
    and "t \<in> set (lat_object_textures sc)"
  shows "\<exists>kind rng. kind \<in> set TEXTURES \<and> kind \<noteq> ''IMAGE'' \<and>
           t = fst (get_texture E kind rng False)"
proof -
  from assms(2,3) obtain c0 c1 where "scene_latents E P (lat_seed sc) c0 = Inr (sc, c1)"
    by (rule dataset_scene)
  then obtain rng2 n shapes scales angles axes quats texs mats
    where o: "objects_step E P rng2 = Inr (n, shapes, scales, angles, axes, quats, texs, mats)"
      and sc: "lat_object_textures sc = texs"
    by (elim scene_latents_Inr) simp
  from o obtain rng5 where "texs = fst (draws (nat n) (object_texture E) rng5)"
    by (elim objects_step_Inr) blast
  with assms(4) sc have "t \<in> set (fst (draws (nat n) (object_texture E) rng5))" by simp
  then have "\<exists>kind rng. kind \<in> set TEXTURES \<and> t = fst (get_texture E kind rng False)"
    by (rule draws_all [rotated]) (rule object_texture_kind [OF assms(1)])
  moreover have "''IMAGE'' \<notin> set TEXTURES" by (simp add: TEXTURES_def)
  ultimately show ?thesis by blast
qed

theorem object_textures_from_palette_witness:
  "\<not> isl (latent_dataset toy_env two_scenes) \<and>
   (''MARBLE'', False) \<in> set (lat_object_textures (hd (fst (projr (latent_dataset toy_env two_scenes))))) \<and>
   (\<exists>kind rng. kind \<in> set TEXTURES \<and> kind \<noteq> ''IMAGE'' \<and>
      (''MARBLE'', False) = fst (get_texture toy_env kind rng False))"
proof -
  obtain a b sl where r: "latent_dataset toy_env two_scenes = Inr ([a, b], sl)"
    and t: "lat_object_textures a = [(''NONE'', False), (''DISTORTED_NOISE'', False),
       (''MARBLE'', False), (''STUCCI'', False), (''WOOD'', False)]"
    using two_scenes_run by blast
  have m: "a \<in> set [a, b]" by simp
  from t have "(''MARBLE'', False) \<in> set (lat_object_textures a)" by simp
  from object_textures_from_palette [OF toy_rng_contract r m this] r this
  show ?thesis by simp
qed

subsection \<open>C9: what the checks at the head of the function refuse\<close>

text \<open>
  C9. When \<^verbatim>\<open>resolution\<close> has not two entries, or \<^verbatim>\<open>spawn_region\<close> is not two points of
  three entries each, or one of \<^verbatim>\<open>sun_position\<close>, \<^verbatim>\<open>camera_position\<close>, \<^verbatim>\<open>camera_look_at\<close>,
  \<^verbatim>\<open>floor_position\<close>, \<^verbatim>\<open>floor_scale\<close> has not three entries, or \<^verbatim>\<open>floor_friction\<close> or
  \<^verbatim>\<open>floor_restitution\<close> lies outside the interval from 0 to 1, the call raises a
  \<open>ValueError\<close>. It is the error of the checks themselves: the call raises it whatever
  the environment, so before any seed is drawn, and returns no list.
\<close>

theorem malformed_parameters_refused:
  assumes "length (resolution P) \<noteq> 2 \<or> length (spawn_region P) \<noteq> 2 \<or>
           (\<exists>sr \<in> set (spawn_region P). length sr \<noteq> 3) \<or>
           length (sun_position P) \<noteq> 3 \<or> length (camera_position P) \<noteq> 3 \<or>
           length (camera_look_at P) \<noteq> 3 \<or> length (floor_position P) \<noteq> 3 \<or>
           length (floor_scale P) \<noteq> 3 \<or>
           float_lt (floor_friction P) (Finite 0) \<or> float_lt (Finite 1) (floor_friction P) \<or>
           float_lt (floor_restitution P) (Finite 0) \<or>
           float_lt (Finite 1) (floor_restitution P)"
  shows "\<exists>m. validate P = Inl (ValueError m) \<and> latent_dataset E P = Inl (ValueError m)"
proof -
  from assms have "validate P \<noteq> Inr ()"
    by (auto dest!: validate_Inr)
  then obtain e where e: "validate P = Inl e" by (cases "validate P") auto
  from validate_Inl [OF e] obtain m where "e = ValueError m" by (cases e) auto
  with e show ?thesis by (simp add: latent_dataset_def)
qed

theorem malformed_parameters_refused_witness:
  "length (resolution short_resolution) = 1 \<and>
   (\<exists>m. validate short_resolution = Inl (ValueError m) \<and>
        latent_dataset toy_env short_resolution = Inl (ValueError m)) \<and>
   floor_friction high_friction = Finite (15 / 10) \<and>
   (\<exists>m. validate high_friction = Inl (ValueError m) \<and>
        latent_dataset toy_env high_friction = Inl (ValueError m)) \<and>
   map length (spawn_region short_corner) = [2, 3] \<and>
   (\<exists>m. validate short_corner = Inl (ValueError m) \<and>
        latent_dataset toy_env short_corner = Inl (ValueError m))"
proof -
  have "length (resolution short_resolution) \<noteq> 2" "float_lt (Finite 1) (floor_friction high_friction)"
    "\<exists>sr \<in> set (spawn_region short_corner). length sr \<noteq> 3"
    by (simp_all add: example_params)
  from malformed_parameters_refused [of short_resolution toy_env]
    malformed_parameters_refused [of high_friction toy_env]
    malformed_parameters_refused [of short_corner toy_env] this
  have "(\<exists>m. validate short_resolution = Inl (ValueError m) \<and>
        latent_dataset toy_env short_resolution = Inl (ValueError m)) \<and>
     (\<exists>m. validate high_friction = Inl (ValueError m) \<and>
        latent_dataset toy_env high_friction = Inl (ValueError m)) \<and>
     (\<exists>m. validate short_corner = Inl (ValueError m) \<and>
        latent_dataset toy_env short_corner = Inl (ValueError m))"
    by blast
  then show ?thesis by (simp add: example_params)
qed

subsection \<open>C8: the ranges of the per-object values\<close>




subsection \<open>C6: the keys copied from the arguments\<close>

text \<open>
  C6, as the specification has it, asks for \<^verbatim>\<open>floor_position\<close> in the dictionary in both
  branches on \<^verbatim>\<open>hdri_world\<close>. The function sets that key in the branch for
  \<^verbatim>\<open>hdri_world\<close> false only (line 180): in an HDRI world the dictionary has no such key.
\<close>

theorem floor_position_absent_in_hdri_world:
  "validate hdri_scene = Inr () \<and> hdri_world hdri_scene \<and>
   \<not> isl (scene_latents toy_env hdri_scene 0 (sun_position hdri_scene)) \<and>
   lat_floor_position (fst (projr (scene_latents toy_env hdri_scene 0 (sun_position hdri_scene))))
     = Absent"
  by (simp add: toy_eval example_params)

text \<open>
  C6, amended. The dictionary a pass of the sampler returns has the keys \<^verbatim>\<open>resolution\<close>,
  \<^verbatim>\<open>spawn_region\<close>, \<^verbatim>\<open>camera_position\<close>, \<^verbatim>\<open>camera_look_at\<close>, \<^verbatim>\<open>camera_focal_length\<close>,
  \<^verbatim>\<open>camera_sensor_width\<close>, \<^verbatim>\<open>floor_scale\<close>, \<^verbatim>\<open>floor_friction\<close>, \<^verbatim>\<open>floor_restitution\<close> and
  \<^verbatim>\<open>velocity_range\<close> with the values of the call, whatever \<^verbatim>\<open>hdri_world\<close> is; it has
  \<^verbatim>\<open>floor_position\<close>, with the value of the call, when \<^verbatim>\<open>hdri_world\<close> is false, and has no
  such key when \<^verbatim>\<open>hdri_world\<close> is true.
\<close>

theorem static_fields_copied:
  assumes "scene_latents E P seed sun_list = Inr (sc, sun_list')"
  shows "lat_resolution sc = resolution P \<and> lat_spawn_region sc = spawn_region P \<and>
         lat_camera_position sc = camera_position P \<and>
         lat_camera_look_at sc = camera_look_at P \<and>
         lat_camera_focal_length sc = camera_focal_length P \<and>
         lat_camera_sensor_width sc = camera_sensor_width P \<and>
         lat_floor_scale sc = floor_scale P \<and> lat_floor_friction sc = floor_friction P \<and>
         lat_floor_restitution sc = floor_restitution P \<and>
         lat_velocity_range sc = velocity_range P \<and>
         lat_floor_position sc = (if hdri_world P then Absent else Val (floor_position P))"
proof -
  from assms obtain hid bgm fp bgt rng1
    where w: "world_step E P (RandomState E seed) = Inr ((hid, bgm, fp, bgt), rng1)"
      and f: "lat_resolution sc = resolution P \<and>
         lat_spawn_region sc = spawn_region P \<and> lat_hdri_world sc = hdri_world P \<and>
         lat_lighting sc = lighting P \<and> lat_camera_position sc = camera_position P \<and>
         lat_camera_look_at sc = camera_look_at P \<and>
         lat_camera_focal_length sc = camera_focal_length P \<and>
         lat_camera_sensor_width sc = camera_sensor_width P \<and>
         lat_floor_scale sc = floor_scale P \<and> lat_floor_friction sc = floor_friction P \<and>
         lat_floor_restitution sc = floor_restitution P \<and>
         lat_velocity_range sc = velocity_range P \<and> lat_asset_source sc = asset_source P"
      and p: "lat_floor_position sc = fp"
    by (elim scene_latents_Inr) simp
  from world_step_Inr [OF w] have "fp = (if hdri_world P then Absent else Val (floor_position P))"
    by (simp split: if_splits)
  with f p show ?thesis by simp
qed

theorem static_fields_copied_witness:
  "\<not> isl (scene_latents toy_env two_scenes 0 [0, 0, 7]) \<and>
   (let sc = fst (projr (scene_latents toy_env two_scenes 0 [0, 0, 7])) in
      lat_resolution sc = [256, 144] \<and> lat_camera_focal_length sc = 32 \<and>
      lat_floor_scale sc = [20, 40, 1 / 100] \<and> lat_floor_position sc = Val [0, 0, 0]) \<and>
   \<not> isl (scene_latents toy_env hdri_scene 0 [0, 0, 7]) \<and>
   (let sc = fst (projr (scene_latents toy_env hdri_scene 0 [0, 0, 7])) in
      lat_resolution sc = [256, 144] \<and> lat_camera_focal_length sc = 32 \<and>
      lat_floor_scale sc = [20, 40, 1 / 100] \<and> lat_floor_position sc = Absent)"
proof -
  have "\<not> isl (scene_latents toy_env two_scenes 0 [0, 0, 7])"
    by (simp add: toy_eval example_params)
  then obtain a c where a: "scene_latents toy_env two_scenes 0 [0, 0, 7] = Inr (a, c)"
    by (cases "scene_latents toy_env two_scenes 0 [0, 0, 7]") auto
  have "\<not> isl (scene_latents toy_env hdri_scene 0 [0, 0, 7])"
    by (simp add: toy_eval example_params)
  then obtain h c' where h: "scene_latents toy_env hdri_scene 0 [0, 0, 7] = Inr (h, c')"
    by (cases "scene_latents toy_env hdri_scene 0 [0, 0, 7]") auto
  from static_fields_copied [OF a] static_fields_copied [OF h] a h
  show ?thesis by (simp add: example_params)
qed

subsection \<open>C3: ranges the wrong way round\<close>

text \<open>
  C3, as the specification has it, lets the checks at the head of the function refuse
  a spawn region whose first corner exceeds the second. The function has no such check:
  the call below passes the checks and returns a list.
\<close>

theorem inverted_spawn_region_accepted:
  "spawn_region inverted_region ! 1 ! 0 < spawn_region inverted_region ! 0 ! 0 \<and>
   validate inverted_region = Inr () \<and>
   \<not> isl (latent_dataset toy_env inverted_region) \<and>
   length (fst (projr (latent_dataset toy_env inverted_region))) = 1"
  by (simp add: toy_eval example_params)

text \<open>
  C3, amended. The checks at the head of the function look at neither order: exchanging
  the two corners of the spawn region, or replacing \<^verbatim>\<open>min_num_objects\<close> and
  \<^verbatim>\<open>max_num_objects\<close> by any two numbers, does not change their verdict. A call with
  \<^verbatim>\<open>min_num_objects\<close> above \<^verbatim>\<open>max_num_objects\<close> that asks for at least one scene fails and
  returns no list: with a \<open>ValueError\<close> (of the checks, of the seed draw, or of the first
  scene, where the draw of \<^verbatim>\<open>num_objects\<close> raises it after the seeds were drawn unless an
  earlier branch of that scene did), or with the error of loading the HDRI manifest.
  A call for no scene that passes the checks returns the empty list.
\<close>

theorem range_order_unchecked:
  assumes "seeds_contract E"
  shows "validate (P\<lparr>spawn_region := [hi, lo]\<rparr>) = validate (P\<lparr>spawn_region := [lo, hi]\<rparr>) \<and>
         validate (P\<lparr>min_num_objects := a, max_num_objects := b\<rparr>) = validate P \<and>
         (max_num_objects P < min_num_objects P \<longrightarrow> 0 < num_scenes P \<longrightarrow>
            (\<exists>e. latent_dataset E P = Inl e \<and>
                 (is_ValueError e \<or> (hdri_world P \<and> hdri_manifest E = Inl e)))) \<and>
         (num_scenes P = 0 \<longrightarrow> validate P = Inr () \<longrightarrow>
            latent_dataset E P = Inr ([], sun_position P))"
proof (intro conjI impI)
  show "validate (P\<lparr>spawn_region := [hi, lo]\<rparr>) = validate (P\<lparr>spawn_region := [lo, hi]\<rparr>)"
    by (auto simp: validate_def)
  show "validate (P\<lparr>min_num_objects := a, max_num_objects := b\<rparr>) = validate P"
    by (simp add: validate_def)
next
  assume lt: "max_num_objects P < min_num_objects P" and n: "0 < num_scenes P"
  have "\<forall>rng. \<exists>m. objects_step E P rng = Inl (ValueError m)"
    using objects_step_low_high [OF lt, of E] by simp
  then show "\<exists>e. latent_dataset E P = Inl e \<and>
            (is_ValueError e \<or> (hdri_world P \<and> hdri_manifest E = Inl e))"
    by (intro dataset_fails [OF assms n]) simp
next
  assume "num_scenes P = 0" "validate P = Inr ()"
  moreover from assms have "length (entropy_seeds E 2147483647 0) = 0"
    unfolding seeds_contract_def by blast
  ultimately show "latent_dataset E P = Inr ([], sun_position P)"
    by (simp add: latent_dataset_def choice_no_replace_def)
qed

theorem range_order_unchecked_witness:
  "max_num_objects inverted_count < min_num_objects inverted_count \<and>
   0 < num_scenes inverted_count \<and> validate inverted_count = Inr () \<and>
   (\<exists>e. latent_dataset toy_env inverted_count = Inl e \<and> is_ValueError e) \<and>
   latent_dataset toy_env (inverted_count\<lparr>num_scenes := 0\<rparr>) = Inr ([], [0, 0, 7])"
proof -
  have h: "max_num_objects inverted_count < min_num_objects inverted_count"
    "0 < num_scenes inverted_count" "validate inverted_count = Inr ()"
    "\<not> hdri_world inverted_count"
    "validate (inverted_count\<lparr>num_scenes := 0\<rparr>) = Inr ()"
    "sun_position (inverted_count\<lparr>num_scenes := 0\<rparr>) = [0, 0, 7]"
    by (simp_all add: example_params validate_def)
  from range_order_unchecked [OF toy_seeds_contract, where P = inverted_count]
    range_order_unchecked [OF toy_seeds_contract, where P = "inverted_count\<lparr>num_scenes := 0\<rparr>"] h
  show ?thesis by simp
qed

subsection \<open>C5: the sun position of each scene\<close>

text \<open>
  C5 asks that each dictionary carry, as the first two entries of \<^verbatim>\<open>sun_position\<close>, the two
  numbers drawn for its own scene. The function stores in every dictionary the one list
  object it was given (line 199) and overwrites that list's first two entries in every
  pass (lines 200 and 201). Run for two scenes with the default arguments: the pass
  for seed 0 draws \<open>1/2\<close> and \<open>-1\<close>, the pass for seed 1 draws \<open>-1\<close> and \<open>-1/2\<close>, and in the
  returned list both dictionaries read \<open>-1\<close> and \<open>-1/2\<close>, the draws of the last scene
  (in general: \<open>every_scene_reads_last_draw\<close>). The third entry is never written, and a
  lighting other than the two known ones does raise a \<open>ValueError\<close>
  (\<open>lighting_step_unknown\<close>, \<open>unknown_lighting_fails\<close>).
\<close>

theorem sun_position_shared_between_scenes:
  "\<not> isl (latent_dataset toy_env two_scenes) \<and>
   snd (scene_value (projr (scene_latents toy_env two_scenes 0 (sun_position two_scenes)))) =
     Val [1 / 2, - 1, 7] \<and>
   snd (scene_value (projr (scene_latents toy_env two_scenes 1 (sun_position two_scenes)))) =
     Val [- 1, - (1 / 2), 7] \<and>
   (let scenes = fst (projr (latent_dataset toy_env two_scenes));
        sun_list = snd (projr (latent_dataset toy_env two_scenes)) in
      map lat_seed scenes = [0, 1] \<and>
      deref sun_list (lat_sun_position (scenes ! 0)) = Val [- 1, - (1 / 2), 7] \<and>
      deref sun_list (lat_sun_position (scenes ! 1)) = Val [- 1, - (1 / 2), 7])"
proof -
  obtain a b sl where r: "latent_dataset toy_env two_scenes = Inr ([a, b], sl)"
    and f: "lat_seed a = 0" "lat_seed b = 1" "sl = [- 1, - (1 / 2), 7]"
      "lat_sun_position a = Val Arg_sun_position" "lat_sun_position b = Val Arg_sun_position"
    using two_scenes_run by blast
  have "snd (scene_value (projr (scene_latents toy_env two_scenes 0 (sun_position two_scenes)))) =
      Val [1 / 2, - 1, 7]"
    by (simp add: toy_eval example_params scene_value_def)
  moreover
  have "snd (scene_value (projr (scene_latents toy_env two_scenes 1 (sun_position two_scenes)))) =
      Val [- 1, - (1 / 2), 7]"
    by (simp add: toy_eval example_params scene_value_def)
  ultimately show ?thesis using r f by simp
qed

end
